theory Spec2Isabelle
  imports Complex_Main "HOL-Library.Word"
begin

section \<open>SUPIR/util.py: checkpoint loading and image conversions\<close>

text \<open>
  A shallow embedding of \<^verbatim>\<open>SUPIR/util.py\<close>. Every Python function of the module is a
  HOL function of the same name. An exception is a value \<open>Inl e\<close> of the result type
  \<open>exn + 'a\<close>; functions that print, log or touch the file system also return the list
  of these events in program order.

  Sample values produced by resampling (bicubic, Lanczos, area) are not modelled: images
  and tensors that come out of a resize carry their shape only. The channel
  normalisation \<^verbatim>\<open>HWC3\<close> is modelled on the samples themselves.
\<close>

subsection \<open>Exceptions\<close>

text \<open>
  \<open>LibraryError\<close> stands for an exception raised inside PIL, NumPy, torch, OpenCV,
  OmegaConf or safetensors; the class of such an exception is not modelled.
\<close>

datatype exn =
    AssertionError
  | NotImplementedError
  | ZeroDivisionError
  | ValueError
  | AttributeError
  | FileNotFoundError
  | LibraryError

definition bind_exn :: "exn + 'a \<Rightarrow> ('a \<Rightarrow> exn + 'b) \<Rightarrow> exn + 'b" where
  "bind_exn m f = (case m of Inl e \<Rightarrow> Inl e | Inr a \<Rightarrow> f a)"

subsection \<open>Floating point\<close>

text \<open>
  A Python \<^verbatim>\<open>float\<close> is an IEEE binary64 number and a NumPy \<^verbatim>\<open>float32\<close> a binary32
  number. Both are modelled as rationals: an arithmetic operation computes the exact
  result and rounds it to the nearest number with \<open>prec\<close> significant bits, ties to
  even (\<open>prec = 53\<close> and \<open>prec = 24\<close>). The exponent range is unbounded: overflow,
  subnormal numbers, infinities and NaN are not modelled.

  The numeric arguments of the image functions (upscale factors, sizes) are Python
  numbers. A Python \<^verbatim>\<open>int\<close> below \<open>2\<^sup>5\<^sup>3\<close> in magnitude is the same rational as the
  \<^verbatim>\<open>float\<close> of equal value, and rounding keeps it, so integer arguments need no type of
  their own. The resolution unit is an \<^verbatim>\<open>int\<close>.
\<close>

definition pow2 :: "int \<Rightarrow> rat" where
  "pow2 e = (if 0 \<le> e then 2 ^ nat e else 1 / 2 ^ nat (- e))"

text \<open>Python's \<^verbatim>\<open>round\<close> and \<^verbatim>\<open>np.round\<close>: to the nearest integer, ties to even.\<close>

definition round_half_even :: "rat \<Rightarrow> int" where
  "round_half_even x =
     (let f = \<lfloor>x\<rfloor>; d = x - of_int f
      in if d < 1 / 2 then f
         else if 1 / 2 < d then f + 1
         else if even f then f else f + 1)"

text \<open>The number of bits of a positive integer.\<close>

function bitlen :: "int \<Rightarrow> int" where
  "bitlen n = (if n \<le> 0 then 0 else 1 + bitlen (n div 2))"
  by pat_completeness auto
termination
  by (relation "measure nat") auto

declare bitlen.simps [simp del]

text \<open>\<open>ilog2 x\<close> is the binary exponent \<open>\<lfloor>log\<^sub>2 \<bar>x\<bar>\<rfloor>\<close> of a nonzero \<open>x\<close>.\<close>

definition ilog2 :: "rat \<Rightarrow> int" where
  "ilog2 x =
     (let (p, q) = quotient_of \<bar>x\<bar>;
          d = bitlen p - bitlen q
      in if pow2 d \<le> \<bar>x\<bar> then d else d - 1)"

definition float_round :: "nat \<Rightarrow> rat \<Rightarrow> rat" where
  "float_round prec x =
     (if x = 0 then 0
      else let u = pow2 (ilog2 x - int prec + 1)
           in of_int (round_half_even (x / u)) * u)"

definition fl64 :: "rat \<Rightarrow> rat" where
  "fl64 = float_round 53"

definition fl32 :: "rat \<Rightarrow> rat" where
  "fl32 = float_round 24"

text \<open>Python's \<^verbatim>\<open>a * b\<close> and \<^verbatim>\<open>a / b\<close> on floats; the latter raises on a zero divisor.\<close>

definition py_mul :: "rat \<Rightarrow> rat \<Rightarrow> rat" where
  "py_mul a b = fl64 (a * b)"

definition py_truediv :: "rat \<Rightarrow> rat \<Rightarrow> exn + rat" where
  "py_truediv a b = (if b = 0 then Inl ZeroDivisionError else Inr (fl64 (a / b)))"

subsection \<open>Decoded images and tensors\<close>

text \<open>
  A decoded (PIL) image has a size and a mode; the mode fixes the number of bands.
  \<^verbatim>\<open>np.array\<close> of a single-band image is a 2-dimensional array, of any other image an
  array of shape \<open>(height, width, bands)\<close>.
\<close>

datatype pil_mode =
    Mode_1 | Mode_L | Mode_P | Mode_I | Mode_F
  | Mode_LA | Mode_PA
  | Mode_RGB | Mode_YCbCr | Mode_LAB | Mode_HSV
  | Mode_RGBA | Mode_CMYK | Mode_RGBX

fun bands :: "pil_mode \<Rightarrow> nat" where
  "bands Mode_1 = 1"
| "bands Mode_L = 1"
| "bands Mode_P = 1"
| "bands Mode_I = 1"
| "bands Mode_F = 1"
| "bands Mode_LA = 2"
| "bands Mode_PA = 2"
| "bands Mode_RGB = 3"
| "bands Mode_YCbCr = 3"
| "bands Mode_LAB = 3"
| "bands Mode_HSV = 3"
| "bands Mode_RGBA = 4"
| "bands Mode_CMYK = 4"
| "bands Mode_RGBX = 4"

record pil_image =
  im_width :: nat
  im_height :: nat
  im_mode :: pil_mode

text \<open>A torch tensor, by its shape.\<close>

record tensor =
  t_shape :: "nat list"

text \<open>\<^verbatim>\<open>img.resize((w, h), Image.BICUBIC)\<close>: PIL rejects a target size below 1.\<close>

definition PIL_resize :: "pil_image \<Rightarrow> int \<times> int \<Rightarrow> exn + pil_image" where
  "PIL_resize img sz =
     (case sz of (w, h) \<Rightarrow>
        if w < 1 \<or> h < 1 then Inl LibraryError
        else Inr (img\<lparr>im_width := nat w, im_height := nat h\<rparr>))"

definition np_array_shape :: "pil_image \<Rightarrow> nat list" where
  "np_array_shape img =
     (if bands (im_mode img) = 1 then [im_height img, im_width img]
      else [im_height img, im_width img, bands (im_mode img)])"

text \<open>\<^verbatim>\<open>permute(2, 0, 1)\<close> and \<^verbatim>\<open>permute(1, 2, 0)\<close> need exactly three dimensions.\<close>

definition permute_201 :: "nat list \<Rightarrow> exn + nat list" where
  "permute_201 s = (if length s = 3 then Inr [s ! 2, s ! 0, s ! 1] else Inl LibraryError)"

definition permute_120 :: "nat list \<Rightarrow> exn + nat list" where
  "permute_120 s = (if length s = 3 then Inr [s ! 1, s ! 2, s ! 0] else Inl LibraryError)"

definition PIL2Tensor ::
  "pil_image \<Rightarrow> rat \<Rightarrow> rat \<Rightarrow> rat option \<Rightarrow> exn + (tensor \<times> int \<times> int)" where
  "PIL2Tensor img upsacle min_size fix_resize =
     (let w = py_mul (of_nat (im_width img)) upsacle;
          h = py_mul (of_nat (im_height img)) upsacle;
          w0 = round_half_even w;
          h0 = round_half_even h
      in bind_exn
           (if min w h < min_size
            then bind_exn (py_truediv min_size (min w h))
                   (\<lambda>u. Inr (py_mul w u, py_mul h u))
            else Inr (w, h))
           (\<lambda>(w, h).
         bind_exn
           (case fix_resize of
              None \<Rightarrow> Inr (w, h, w0, h0)
            | Some fr \<Rightarrow>
                bind_exn (py_truediv fr (min w h))
                  (\<lambda>u. let w' = py_mul w u; h' = py_mul h u
                       in Inr (w', h', round_half_even w', round_half_even h')))
           (\<lambda>(w, h, w0, h0).
         let w = round_half_even (fl64 (w / 64)) * 64;
             h = round_half_even (fl64 (h / 64)) * 64
         in bind_exn (PIL_resize img (w, h))
              (\<lambda>x. bind_exn (permute_201 (np_array_shape x))
                (\<lambda>s. Inr (\<lparr>t_shape = s\<rparr>, h0, w0))))))"

text \<open>
  \<^verbatim>\<open>interpolate(x, size=(h0, w0), mode='bicubic')\<close>: torch wants a 4-dimensional input with
  non-empty channel, height and width dimensions and positive output sizes.
\<close>

definition interpolate_bicubic :: "nat list \<Rightarrow> int \<times> int \<Rightarrow> exn + nat list" where
  "interpolate_bicubic s sz =
     (case sz of (h0, w0) \<Rightarrow>
        if length s \<noteq> 4 then Inl LibraryError
        else if s ! 1 = 0 \<or> s ! 2 = 0 \<or> s ! 3 = 0 \<or> h0 < 1 \<or> w0 < 1 then Inl LibraryError
        else Inr [s ! 0, s ! 1, nat h0, nat w0])"

text \<open>\<^verbatim>\<open>squeeze(0)\<close> drops the leading dimension when its size is 1.\<close>

definition squeeze0 :: "nat list \<Rightarrow> nat list" where
  "squeeze0 s = (case s of [] \<Rightarrow> [] | d # r \<Rightarrow> if d = 1 then r else s)"

text \<open>\<^verbatim>\<open>Image.fromarray\<close> of a \<^verbatim>\<open>uint8\<close> array picks the mode from the shape.\<close>

definition Image_fromarray :: "nat list \<Rightarrow> exn + pil_image" where
  "Image_fromarray s =
     (if length s = 2 then Inr \<lparr>im_width = s ! 1, im_height = s ! 0, im_mode = Mode_L\<rparr>
      else if length s = 3 \<and> s ! 2 = 2
        then Inr \<lparr>im_width = s ! 1, im_height = s ! 0, im_mode = Mode_LA\<rparr>
      else if length s = 3 \<and> s ! 2 = 3
        then Inr \<lparr>im_width = s ! 1, im_height = s ! 0, im_mode = Mode_RGB\<rparr>
      else if length s = 3 \<and> s ! 2 = 4
        then Inr \<lparr>im_width = s ! 1, im_height = s ! 0, im_mode = Mode_RGBA\<rparr>
      else Inl LibraryError)"

definition Tensor2PIL :: "tensor \<Rightarrow> int \<Rightarrow> int \<Rightarrow> exn + pil_image" where
  "Tensor2PIL x h0 w0 =
     bind_exn (interpolate_bicubic (1 # t_shape x) (h0, w0))
       (\<lambda>s. bind_exn (permute_120 (squeeze0 s)) Image_fromarray)"

subsection \<open>Arrays and channel normalisation\<close>

text \<open>
  A NumPy array: its dtype, its shape and its samples in row-major order. The samples
  are those of a \<^verbatim>\<open>uint8\<close> array; \<^verbatim>\<open>HWC3\<close> rejects an array of any other dtype before it
  reads a sample, and the resize helpers read the shape only.
\<close>

datatype np_dtype = uint8 | float32 | float64

record ndarray =
  a_dtype :: np_dtype
  a_shape :: "nat list"
  a_data :: "8 word list"

text \<open>The samples \<^verbatim>\<open>x[i, j]\<close> of a 2-dimensional and \<^verbatim>\<open>x[i, j, c]\<close> of a 3-dimensional array.\<close>

definition at2 :: "ndarray \<Rightarrow> nat \<Rightarrow> nat \<Rightarrow> 8 word" where
  "at2 x i j = a_data x ! (i * (a_shape x ! 1) + j)"

definition at3 :: "ndarray \<Rightarrow> nat \<Rightarrow> nat \<Rightarrow> nat \<Rightarrow> 8 word" where
  "at3 x i j c = a_data x ! ((i * (a_shape x ! 1) + j) * (a_shape x ! 2) + c)"

text \<open>\<^verbatim>\<open>y.clip(0, 255)\<close> and \<^verbatim>\<open>.astype(np.uint8)\<close>, which truncates towards zero.\<close>

definition clip :: "rat \<Rightarrow> rat \<Rightarrow> rat \<Rightarrow> rat" where
  "clip lo hi y = min hi (max lo y)"

definition astype_uint8 :: "rat \<Rightarrow> 8 word" where
  "astype_uint8 y = word_of_int (if 0 \<le> y then \<lfloor>y\<rfloor> else \<lceil>y\<rceil>)"

text \<open>
  One sample of \<^verbatim>\<open>color * alpha + 255.0 * (1.0 - alpha)\<close>, computed in \<^verbatim>\<open>float32\<close>, with
  \<^verbatim>\<open>alpha = x[:, :, 3:4].astype(np.float32) / 255.0\<close>.
\<close>

definition composite_sample :: "8 word \<Rightarrow> 8 word \<Rightarrow> 8 word" where
  "composite_sample c a =
     (let color = fl32 (of_nat (unat c));
          alpha = fl32 (fl32 (of_nat (unat a)) / 255);
          y = fl32 (fl32 (color * alpha) + fl32 (255 * fl32 (1 - alpha)))
      in astype_uint8 (clip 0 255 y))"

text \<open>The samples of a 4-channel array, pixel by pixel.\<close>

fun composite :: "8 word list \<Rightarrow> 8 word list" where
  "composite (r # g # b # a # rest) =
     composite_sample r a # composite_sample g a # composite_sample b a # composite rest"
| "composite _ = []"

text \<open>
  \<^verbatim>\<open>np.concatenate([x, y, z], axis=2)\<close> of three arrays of shape \<open>(H, W, 1)\<close>: every pixel
  takes one sample of each.
\<close>

definition concatenate_axis2 :: "8 word list \<Rightarrow> 8 word list \<Rightarrow> 8 word list \<Rightarrow> 8 word list" where
  "concatenate_axis2 xs ys zs = concat (map (\<lambda>(u, v, w). [u, v, w]) (zip xs (zip ys zs)))"

definition HWC3 :: "ndarray \<Rightarrow> exn + ndarray" where
  "HWC3 x0 =
     (if a_dtype x0 \<noteq> uint8 then Inl AssertionError
      else
        let x = (if length (a_shape x0) = 2 then x0\<lparr>a_shape := a_shape x0 @ [1]\<rparr> else x0)
        in if length (a_shape x) \<noteq> 3 then Inl AssertionError
           else
             let H = a_shape x ! 0; W = a_shape x ! 1; C = a_shape x ! 2
             in if \<not> (C = 1 \<or> C = 3 \<or> C = 4) then Inl AssertionError
                else if C = 3 then Inr x
                else if C = 1
                  then Inr (x\<lparr>a_shape := [H, W, 3],
                              a_data := concatenate_axis2 (a_data x) (a_data x) (a_data x)\<rparr>)
                else Inr (x\<lparr>a_shape := [H, W, 3], a_data := composite (a_data x)\<rparr>))"

subsection \<open>Resize helpers\<close>

datatype cv2_interpolation = INTER_LANCZOS4 | INTER_AREA

text \<open>
  What \<^verbatim>\<open>cv2.resize\<close> was asked for and gave: the shape of the result and the
  interpolation flag of the call.
\<close>

record resized =
  r_shape :: "nat list"
  r_interpolation :: cv2_interpolation

text \<open>
  \<^verbatim>\<open>cv2.resize(src, (W, H), interpolation=...)\<close>: OpenCV rejects an empty source and a
  target size below 1, and returns a 2-dimensional array for a single channel.
\<close>

definition cv2_resize :: "ndarray \<Rightarrow> int \<times> int \<Rightarrow> cv2_interpolation \<Rightarrow> exn + resized" where
  "cv2_resize src dsize interpolation =
     (case dsize of (W, H) \<Rightarrow>
        if 0 \<in> set (a_shape src) \<or> W < 1 \<or> H < 1 then Inl LibraryError
        else Inr \<lparr>r_shape = (if a_shape src ! 2 = 1 then [nat H, nat W]
                              else [nat H, nat W, a_shape src ! 2]),
                  r_interpolation = interpolation\<rparr>)"

definition upscale_image :: "ndarray \<Rightarrow> rat \<Rightarrow> rat option \<Rightarrow> int \<Rightarrow> exn + resized" where
  "upscale_image input_image upscale min_size unit_resolution =
     (if length (a_shape input_image) \<noteq> 3 then Inl ValueError
      else
        let H = py_mul (fl64 (of_nat (a_shape input_image ! 0))) upscale;
            W = py_mul (fl64 (of_nat (a_shape input_image ! 1))) upscale
        in bind_exn
             (case min_size of
                None \<Rightarrow> Inr (H, W)
              | Some ms \<Rightarrow>
                  if min H W < ms
                  then bind_exn (py_truediv ms (min W H))
                         (\<lambda>u. let W' = py_mul W u; H' = py_mul H u in Inr (H', W'))
                  else Inr (H, W))
             (\<lambda>(H, W).
           bind_exn (py_truediv H (of_int unit_resolution))
             (\<lambda>hq. let H = round_half_even hq * unit_resolution
                   in bind_exn (py_truediv W (of_int unit_resolution))
                        (\<lambda>wq. let W = round_half_even wq * unit_resolution
                              in cv2_resize input_image (W, H)
                                   (if 1 < upscale then INTER_LANCZOS4 else INTER_AREA)))))"

definition fix_resize :: "ndarray \<Rightarrow> rat \<Rightarrow> int \<Rightarrow> exn + resized" where
  "fix_resize input_image size' unit_resolution =
     (if length (a_shape input_image) \<noteq> 3 then Inl ValueError
      else
        let H = fl64 (of_nat (a_shape input_image ! 0));
            W = fl64 (of_nat (a_shape input_image ! 1))
        in bind_exn (py_truediv size' (min H W))
             (\<lambda>upscale.
           let H = py_mul H upscale;
               W = py_mul W upscale
           in bind_exn (py_truediv H (of_int unit_resolution))
                (\<lambda>hq. let H = round_half_even hq * unit_resolution
                      in bind_exn (py_truediv W (of_int unit_resolution))
                           (\<lambda>wq. let W = round_half_even wq * unit_resolution
                                 in cv2_resize input_image (W, H)
                                      (if 1 < upscale then INTER_LANCZOS4 else INTER_AREA)))))"

subsection \<open>Precision names\<close>

datatype torch_dtype = torch_float32 | torch_float16 | torch_bfloat16

definition convert_dtype :: "string \<Rightarrow> exn + torch_dtype" where
  "convert_dtype dtype_str =
     (if dtype_str = ''fp32'' then Inr torch_float32
      else if dtype_str = ''fp16'' then Inr torch_float16
      else if dtype_str = ''bf16'' then Inr torch_bfloat16
      else Inl NotImplementedError)"

subsection \<open>Checkpoints\<close>

text \<open>
  A deserialised Python object is a tensor of weights (an opaque identifier; shapes are
  not modelled) or a dictionary with string keys.
\<close>

datatype pyobj = Weights nat | Dict "(string \<times> pyobj) list"

text \<open>\<^verbatim>\<open>d.get('state_dict', d)\<close>; a tensor has no method \<^verbatim>\<open>get\<close>.\<close>

definition get_state_dict :: "pyobj \<Rightarrow> exn + pyobj" where
  "get_state_dict d =
     (case d of
        Dict kvs \<Rightarrow> (case map_of kvs ''state_dict'' of Some v \<Rightarrow> Inr v | None \<Rightarrow> Inr d)
      | Weights _ \<Rightarrow> Inl AttributeError)"

text \<open>
  \<^verbatim>\<open>os.path.splitext\<close> on POSIX paths: the extension starts at the last dot of the last
  path component, unless only dots precede it there. \<^verbatim>\<open>str.lower\<close> on ASCII letters.
\<close>

definition rfind :: "char \<Rightarrow> string \<Rightarrow> int" where
  "rfind c p =
     (case filter (\<lambda>i. p ! i = c) (rev [0..<length p]) of
        [] \<Rightarrow> - 1
      | i # _ \<Rightarrow> int i)"

definition splitext :: "string \<Rightarrow> string \<times> string" where
  "splitext p =
     (let sepIndex = rfind CHR ''/'' p;
          dotIndex = rfind CHR ''.'' p
      in if sepIndex < dotIndex
            \<and> list_ex (\<lambda>i. p ! i \<noteq> CHR ''.'') [nat (sepIndex + 1)..<nat dotIndex]
         then (take (nat dotIndex) p, drop (nat dotIndex) p)
         else (p, []))"

definition lower :: "string \<Rightarrow> string" where
  "lower s =
     map (\<lambda>c. let n = (of_char c :: nat) in if 65 \<le> n \<and> n \<le> 90 then char_of (n + 32) else c) s"

text \<open>
  What the program observes, in program order: the configuration file read, the model
  instantiated, lines logged through \<^verbatim>\<open>printt\<close> and printed through \<^verbatim>\<open>print\<close>, paths
  probed, the accelerator queried, checkpoint files read (with the device), and weights
  loaded into the model.
\<close>

datatype event =
    Read_config string
  | Instantiate
  | Printt string
  | Print string
  | Path_exists string
  | Cuda_is_available
  | Read_file string string
  | Module_load

text \<open>The events that touch the file system.\<close>

fun is_io :: "event \<Rightarrow> bool" where
  "is_io (Read_config _) = True"
| "is_io (Path_exists _) = True"
| "is_io (Read_file _ _) = True"
| "is_io _ = False"

type_synonym 'a io = "(exn + 'a) \<times> event list"

definition bind_io :: "'a io \<Rightarrow> ('a \<Rightarrow> 'b io) \<Rightarrow> 'b io" where
  "bind_io m f =
     (case m of
        (Inl e, t) \<Rightarrow> (Inl e, t)
      | (Inr a, t) \<Rightarrow> (case f a of (r, t') \<Rightarrow> (r, t @ t')))"

text \<open>
  Modelled from the spec: \<^verbatim>\<open>printt\<close> of \<^verbatim>\<open>ui_helpers\<close>, which is not part of the sources
  at hand, emits one log line.
\<close>

definition printt :: "string \<Rightarrow> unit io" where
  "printt msg = (Inr (), [Printt msg])"

definition print :: "string \<Rightarrow> unit io" where
  "print msg = (Inr (), [Print msg])"

text \<open>A model: its named parameters and its sampler attribute.\<close>

record model =
  m_params :: "(string \<times> nat) list"
  m_sampler :: string

record model_config =
  sampler_config_target :: string
  architecture :: nat

record config =
  cfg_model :: model_config
  SDXL_CKPT :: "string option"

datatype file_content =
    Pickle pyobj
  | Safetensors "(string \<times> nat) list"
  | Unreadable

text \<open>
  The surroundings of a call: the configuration files and checkpoint files on disk,
  whether CUDA is available, what \<^verbatim>\<open>instantiate_from_config\<close> builds, and the absolute
  path of a file name in the \<^verbatim>\<open>models\<close> folder next to the package, that is
  \<^verbatim>\<open>os.path.abspath(os.path.join(os.path.dirname(__file__), "..", "models", name))\<close>.
\<close>

record env =
  configs :: "(string \<times> config) list"
  files :: "(string \<times> file_content) list"
  cuda_available :: bool
  instantiate_from_config :: "model_config \<Rightarrow> exn + model"
  models_path :: "string \<Rightarrow> string"

definition OmegaConf_load :: "env \<Rightarrow> string \<Rightarrow> config io" where
  "OmegaConf_load env config_path =
     (case map_of (configs env) config_path of
        None \<Rightarrow> (Inl FileNotFoundError, [Read_config config_path])
      | Some c \<Rightarrow> (Inr c, [Read_config config_path]))"

definition os_path_exists :: "env \<Rightarrow> string \<Rightarrow> bool io" where
  "os_path_exists env p = (Inr (map_of (files env) p \<noteq> None), [Path_exists p])"

definition torch_cuda_is_available :: "env \<Rightarrow> bool io" where
  "torch_cuda_is_available env = (Inr (cuda_available env), [Cuda_is_available])"

definition torch_load :: "env \<Rightarrow> string \<Rightarrow> string \<Rightarrow> pyobj io" where
  "torch_load env p location =
     (case map_of (files env) p of
        None \<Rightarrow> Inl FileNotFoundError
      | Some (Pickle d) \<Rightarrow> Inr d
      | Some _ \<Rightarrow> Inl LibraryError,
      [Read_file p location])"

definition safetensors_load_file :: "env \<Rightarrow> string \<Rightarrow> string \<Rightarrow> pyobj io" where
  "safetensors_load_file env p location =
     (case map_of (files env) p of
        None \<Rightarrow> Inl FileNotFoundError
      | Some (Safetensors kvs) \<Rightarrow> Inr (Dict (map (\<lambda>(k, w). (k, Weights w)) kvs))
      | Some _ \<Rightarrow> Inl LibraryError,
      [Read_file p location])"

definition load_state_dict :: "env \<Rightarrow> string \<Rightarrow> string \<Rightarrow> pyobj io" where
  "load_state_dict env ckpt_path location =
     (let extension = snd (splitext ckpt_path)
      in bind_io
           (if lower extension = ''.safetensors''
            then safetensors_load_file env ckpt_path location
            else bind_io (torch_load env ckpt_path location) (\<lambda>d. (get_state_dict d, [])))
           (\<lambda>state_dict.
         bind_io (get_state_dict state_dict, [])
           (\<lambda>state_dict.
         bind_io (print (''Loaded state_dict from ['' @ ckpt_path @ '']''))
           (\<lambda>_. (Inr state_dict, [])))))"

text \<open>
  \<^verbatim>\<open>model.load_state_dict(state_dict, strict=False)\<close>: a parameter of the model takes the
  weights stored under its name, other keys are ignored; torch rejects a state dict
  that is no dictionary and an entry for a parameter that is no tensor.
\<close>

definition Module_load_state_dict :: "model \<Rightarrow> pyobj \<Rightarrow> model io" where
  "Module_load_state_dict m state_dict =
     (case state_dict of
        Weights _ \<Rightarrow> Inl LibraryError
      | Dict kvs \<Rightarrow>
          if list_ex (\<lambda>(k, v). case map_of kvs k of Some (Dict _) \<Rightarrow> True | _ \<Rightarrow> False)
               (m_params m)
          then Inl LibraryError
          else Inr (m\<lparr>m_params :=
                 map (\<lambda>(k, v). (k, case map_of kvs k of Some (Weights w) \<Rightarrow> w | _ \<Rightarrow> v))
                   (m_params m)\<rparr>),
      [Module_load])"

text \<open>The closure \<^verbatim>\<open>load_to_device\<close>; it updates the model it captures.\<close>

definition load_to_device :: "env \<Rightarrow> model \<Rightarrow> string option \<Rightarrow> model io" where
  "load_to_device env model ckpt_path =
     (let shown = (case ckpt_path of None \<Rightarrow> ''None'' | Some p \<Rightarrow> p);
          not_found = bind_io (printt (''No checkpoint found at ['' @ shown @ '']''))
                        (\<lambda>_. (Inr model, []))
      in bind_io (printt (''Loading state_dict from ['' @ shown @ '']''))
           (\<lambda>_. case ckpt_path of
                   None \<Rightarrow> not_found
                 | Some p \<Rightarrow>
                     if p = [] then not_found
                     else bind_io (os_path_exists env p)
                            (\<lambda>found.
                               if found
                               then bind_io (torch_cuda_is_available env)
                                      (\<lambda>cuda.
                                    let tgt_device = (if cuda then ''cuda'' else ''cpu'')
                                    in bind_io (load_state_dict env p tgt_device)
                                         (\<lambda>state_dict.
                                       bind_io (Module_load_state_dict model state_dict)
                                         (\<lambda>model'.
                                       bind_io (printt (''Loaded state_dict from ['' @ p @ '']''))
                                         (\<lambda>_. (Inr model', [])))))
                               else not_found)))"

text \<open>Python's truth value of an optional string.\<close>

definition truthy :: "string option \<Rightarrow> bool" where
  "truthy s = (case s of None \<Rightarrow> False | Some v \<Rightarrow> v \<noteq> [])"

definition create_SUPIR_model ::
  "env \<Rightarrow> string \<Rightarrow> string option \<Rightarrow> string \<Rightarrow> string option \<Rightarrow> string \<Rightarrow> model io" where
  "create_SUPIR_model env config_path supir_sign device ckpt sampler =
     bind_io (OmegaConf_load env config_path)
       (\<lambda>config0.
     let config1 = config0\<lparr>cfg_model := (cfg_model config0)\<lparr>sampler_config_target := sampler\<rparr>\<rparr>;
         config = (if truthy ckpt then config1\<lparr>SDXL_CKPT := ckpt\<rparr> else config1)
     in bind_io (printt (''Loading model from ['' @ config_path @ '']''))
          (\<lambda>_.
        bind_io (instantiate_from_config env (cfg_model config), [Instantiate])
          (\<lambda>model0.
        bind_io (printt (''Loaded model from ['' @ config_path @ '']''))
          (\<lambda>_.
        bind_io (load_to_device env model0 (SDXL_CKPT config))
          (\<lambda>model1.
        bind_io
          (case supir_sign of
             None \<Rightarrow> (Inr model1, [])
           | Some sign \<Rightarrow>
               if sign = [] then (Inr model1, [])
               else if \<not> (sign = ''F'' \<or> sign = ''Q'') then (Inl AssertionError, [])
               else load_to_device env model1
                      (Some (models_path env (''v0'' @ sign @ ''.ckpt''))))
          (\<lambda>model2.
        let model3 = model2\<lparr>m_sampler := sampler\<rparr>
        in bind_io
             (printt (''Loaded model config from ['' @ config_path @ ''] and moved to ''
                        @ device))
             (\<lambda>_. (Inr model3, []))))))))"

subsection \<open>Example surroundings\<close>

text \<open>
  One configuration file whose primary checkpoint exists and wraps its weights twice,
  one safetensors file with a key \<^verbatim>\<open>state_dict\<close>, no CUDA, and a model with one parameter.
\<close>

definition E0 :: env where
  "E0 =
     \<lparr>configs =
        [(''cfg.yaml'',
          \<lparr>cfg_model = \<lparr>sampler_config_target = ''EDM'', architecture = 0\<rparr>,
           SDXL_CKPT = Some ''sdxl.ckpt''\<rparr>)],
      files =
        [(''sdxl.ckpt'',
          Pickle (Dict [(''state_dict'', Dict [(''state_dict'', Dict [(''w'', Weights 1)])])])),
         (''b.safetensors'', Safetensors [(''state_dict'', 7), (''w'', 8)])],
      cuda_available = False,
      instantiate_from_config =
        (\<lambda>c. Inr \<lparr>m_params = [(''w'', 0)], m_sampler = sampler_config_target c\<rparr>),
      models_path = (\<lambda>n. ''/models/'' @ n)\<rparr>"

section \<open>Properties\<close>

subsection \<open>Facts about rounding\<close>

lemma round_half_even_of_int: "round_half_even (of_int n) = n"
  by (simp add: round_half_even_def)

lemma bitlen_le: "n < 2 ^ m \<Longrightarrow> bitlen n \<le> int m"
proof (induction m arbitrary: n)
  case 0
  then show ?case by (subst bitlen.simps) simp
next
  case (Suc m)
  show ?case
  proof (cases "n \<le> 0")
    case True
    then show ?thesis by (subst bitlen.simps) simp
  next
    case False
    from Suc.prems have "n div 2 < 2 ^ m" by simp
    then have "bitlen (n div 2) \<le> int m" by (rule Suc.IH)
    with False show ?thesis by (subst bitlen.simps) simp
  qed
qed

lemma bitlen_1: "bitlen 1 = 1"
  by (subst bitlen.simps, subst bitlen.simps) simp

lemma ilog2_int_le:
  assumes "k \<noteq> 0" "\<bar>k\<bar> < 2 ^ prec"
  shows "ilog2 (of_int k) \<le> int prec - 1"
proof -
  have q: "quotient_of \<bar>of_int k :: rat\<bar> = (\<bar>k\<bar>, 1)"
    by (simp flip: of_int_abs)
  have "bitlen \<bar>k\<bar> \<le> int prec" using assms(2) by (rule bitlen_le)
  then show ?thesis
    unfolding ilog2_def q by (simp add: Let_def bitlen_1)
qed

text \<open>An integer of at most \<open>prec\<close> bits is a floating-point number: rounding keeps it.\<close>

lemma float_round_int:
  assumes "\<bar>k\<bar> < 2 ^ prec"
  shows "float_round prec (of_int k) = of_int k"
proof (cases "k = 0")
  case True
  then show ?thesis by (simp add: float_round_def)
next
  case False
  define n where "n = nat (int prec - 1 - ilog2 (of_int k))"
  have le: "ilog2 (of_int k) - int prec + 1 \<le> 0"
    using ilog2_int_le[OF False assms] by simp
  have u: "pow2 (ilog2 (of_int k) - int prec + 1) = 1 / 2 ^ n"
  proof (cases "ilog2 (of_int k) - int prec + 1 = 0")
    case True
    then show ?thesis by (simp add: pow2_def n_def)
  next
    case False
    with le have "ilog2 (of_int k) - int prec + 1 < 0" by simp
    then show ?thesis by (simp add: pow2_def n_def algebra_simps)
  qed
  have "(of_int k :: rat) / (1 / 2 ^ n) = of_int (k * 2 ^ n)" by simp
  then have "round_half_even (of_int k / (1 / 2 ^ n)) = k * 2 ^ n"
    using round_half_even_of_int by metis
  then show ?thesis using False
    by (simp add: float_round_def u Let_def)
qed

subsection \<open>Decoded image to tensor and back\<close>

lemma dvd_nat_times_64:
  "\<not> a * 64 < 1 \<Longrightarrow> 64 dvd nat (a * 64) \<and> 0 < nat (a * (64::int))"
proof -
  assume a: "\<not> a * 64 < 1"
  then have "0 \<le> a" by simp
  then have "nat (a * 64) = nat a * 64" by (simp add: nat_mult_distrib)
  with a show ?thesis by simp
qed

lemma PIL2Tensor_shape:
  assumes "PIL2Tensor img upsacle min_size fr = Inr (x, h0, w0)"
  shows "length (t_shape x) = 3 \<and> t_shape x ! 0 = bands (im_mode img) \<and>
         bands (im_mode img) \<noteq> 1 \<and>
         64 dvd t_shape x ! 1 \<and> 64 dvd t_shape x ! 2 \<and>
         0 < t_shape x ! 1 \<and> 0 < t_shape x ! 2"
  using assms
  by (auto simp: PIL2Tensor_def Let_def bind_exn_def PIL_resize_def permute_201_def
        np_array_shape_def dvd_nat_times_64
      split: sum.splits if_splits option.splits prod.splits)

text \<open>
  Claim C1. Whenever \<^verbatim>\<open>PIL2Tensor\<close> returns, for any image, upscale factor, minimum size
  and optional fixed size, the tensor is 3-dimensional (channels first) and its height
  and width, the last two dimensions, are both divisible by 64.
\<close>

theorem PIL2Tensor_divisible_by_64:
  assumes "PIL2Tensor img upsacle min_size fr = Inr (x, h0, w0)"
  shows "length (t_shape x) = 3 \<and> 64 dvd t_shape x ! 1 \<and> 64 dvd t_shape x ! 2"
  using PIL2Tensor_shape[OF assms] by simp

theorem PIL2Tensor_divisible_by_64_witness:
  "PIL2Tensor \<lparr>im_width = 640, im_height = 480, im_mode = Mode_RGB\<rparr> 2 1024 (Some 512)
     = Inr (\<lparr>t_shape = [3, 512, 704]\<rparr>, 512, 683)
   \<and> length (t_shape \<lparr>t_shape = [3, 512, 704]\<rparr>) = 3
   \<and> 64 dvd t_shape \<lparr>t_shape = [3, 512, 704]\<rparr> ! 1
   \<and> 64 dvd t_shape \<lparr>t_shape = [3, 512, 704]\<rparr> ! 2"
proof -
  have h: "PIL2Tensor \<lparr>im_width = 640, im_height = 480, im_mode = Mode_RGB\<rparr> 2 1024 (Some 512)
     = Inr (\<lparr>t_shape = [3, 512, 704]\<rparr>, 512, 683)"
    by code_simp
  show ?thesis using h PIL2Tensor_divisible_by_64[OF h] by simp
qed

lemma bands_le_4: "bands m \<le> 4"
  by (cases m) simp_all

lemma bands_pos: "1 \<le> bands m"
  by (cases m) simp_all

lemma Tensor2PIL_dims:
  assumes "length (t_shape x) = 3" "t_shape x ! 0 \<noteq> 1" "1 \<le> t_shape x ! 0"
    "t_shape x ! 0 \<le> 4" "0 < t_shape x ! 1" "0 < t_shape x ! 2" "1 \<le> h0" "1 \<le> w0"
  shows "\<exists>img'. Tensor2PIL x h0 w0 = Inr img' \<and>
           int (im_width img') = w0 \<and> int (im_height img') = h0"
proof -
  from assms(1) obtain c h w where s: "t_shape x = [c, h, w]"
    by (auto simp: numeral_3_eq_3 length_Suc_conv)
  with assms have c: "c = 2 \<or> c = 3 \<or> c = 4" and hw: "0 < h" "0 < w" by auto
  from c hw assms(7,8) show ?thesis
    by (auto simp: Tensor2PIL_def s bind_exn_def interpolate_bicubic_def squeeze0_def
          permute_120_def Image_fromarray_def)
qed

lemma PIL2Tensor_default_dims:
  assumes "PIL2Tensor img 1 min_size None = Inr (x, h0, w0)"
    and "im_width img < 2 ^ 53" "im_height img < 2 ^ 53"
  shows "w0 = int (im_width img) \<and> h0 = int (im_height img)"
proof -
  have "fl64 (of_int (int (im_width img))) = of_int (int (im_width img))"
    unfolding fl64_def using assms(2) by (intro float_round_int) simp
  moreover have "fl64 (of_int (int (im_height img))) = of_int (int (im_height img))"
    unfolding fl64_def using assms(3) by (intro float_round_int) simp
  ultimately have "round_half_even (py_mul (of_nat (im_width img)) 1) = int (im_width img)"
    "round_half_even (py_mul (of_nat (im_height img)) 1) = int (im_height img)"
    using round_half_even_of_int[of "int (im_width img)"]
      round_half_even_of_int[of "int (im_height img)"]
    by (simp_all add: py_mul_def)
  with assms(1) show ?thesis
    by (auto simp: PIL2Tensor_def Let_def bind_exn_def split: sum.splits if_splits prod.splits)
qed

text \<open>
  Claim C4, as amended. Whenever \<^verbatim>\<open>PIL2Tensor\<close> returns a tensor with pre-quantisation
  dimensions \<open>h0\<close> and \<open>w0\<close> that are both at least 1, \<^verbatim>\<open>Tensor2PIL\<close> applied to them
  returns a decoded image of width \<open>w0\<close> and height \<open>h0\<close> exactly; with upscale 1 and no
  fixed size these are the dimensions of the original image.
\<close>

theorem Tensor2PIL_roundtrip_dims:
  assumes "PIL2Tensor img upsacle min_size fr = Inr (x, h0, w0)"
    and "1 \<le> h0" and "1 \<le> w0"
  shows "\<exists>img'. Tensor2PIL x h0 w0 = Inr img' \<and>
           int (im_width img') = w0 \<and> int (im_height img') = h0 \<and>
           (upsacle = 1 \<and> fr = None \<and> im_width img < 2 ^ 53 \<and> im_height img < 2 ^ 53
              \<longrightarrow> im_width img' = im_width img \<and> im_height img' = im_height img)"
proof -
  note sh = PIL2Tensor_shape[OF assms(1)]
  have "\<exists>img'. Tensor2PIL x h0 w0 = Inr img' \<and>
          int (im_width img') = w0 \<and> int (im_height img') = h0"
    using sh bands_le_4[of "im_mode img"] bands_pos[of "im_mode img"] assms(2,3)
    by (intro Tensor2PIL_dims) simp_all
  then obtain img' where i: "Tensor2PIL x h0 w0 = Inr img'" "int (im_width img') = w0"
    "int (im_height img') = h0" by blast
  have "im_width img' = im_width img \<and> im_height img' = im_height img"
    if "upsacle = 1" "fr = None" "im_width img < 2 ^ 53" "im_height img < 2 ^ 53"
    using PIL2Tensor_default_dims[of img min_size x h0 w0] assms(1) that i by simp
  with i show ?thesis by blast
qed

theorem Tensor2PIL_roundtrip_dims_witness:
  "PIL2Tensor \<lparr>im_width = 100, im_height = 100, im_mode = Mode_RGB\<rparr> 1 1024 None
     = Inr (\<lparr>t_shape = [3, 1024, 1024]\<rparr>, 100, 100)
   \<and> (\<exists>img'. Tensor2PIL \<lparr>t_shape = [3, 1024, 1024]\<rparr> 100 100 = Inr img' \<and>
         int (im_width img') = 100 \<and> int (im_height img') = 100 \<and>
         im_width img' = 100 \<and> im_height img' = 100)"
proof -
  have h: "PIL2Tensor \<lparr>im_width = 100, im_height = 100, im_mode = Mode_RGB\<rparr> 1 1024 None
     = Inr (\<lparr>t_shape = [3, 1024, 1024]\<rparr>, 100, 100)"
    by code_simp
  have p: "(1::int) \<le> 100" by simp
  show ?thesis using h Tensor2PIL_roundtrip_dims[OF h p p] by simp
qed

text \<open>
  The claim as stated fails for a degenerate upscale factor: a 100 by 100 image with
  upscale 1/1024 has pre-quantisation dimensions 0 and 0, the minimum size 1024 still
  yields a 1024 by 1024 tensor, and \<^verbatim>\<open>Tensor2PIL\<close> raises on the target size (0, 0).
\<close>

theorem Tensor2PIL_roundtrip_counterexample:
  "PIL2Tensor \<lparr>im_width = 100, im_height = 100, im_mode = Mode_RGB\<rparr> (1 / 1024) 1024 None
     = Inr (\<lparr>t_shape = [3, 1024, 1024]\<rparr>, 0, 0)
   \<and> Tensor2PIL \<lparr>t_shape = [3, 1024, 1024]\<rparr> 0 0 = Inl LibraryError"
  by code_simp

subsection \<open>Resize helpers\<close>

lemma bind_exn_Inr: "bind_exn m f = Inr r \<Longrightarrow> \<exists>a. m = Inr a \<and> f a = Inr r"
  by (cases m) (simp_all add: bind_exn_def)

lemma py_truediv_Inr: "py_truediv a b = Inr u \<Longrightarrow> u = fl64 (a / b)"
  by (simp add: py_truediv_def split: if_splits)

lemma cv2_resize_interpolation:
  "cv2_resize src dsize i = Inr r \<Longrightarrow> r_interpolation r = i"
  by (auto simp: cv2_resize_def split: prod.splits if_splits)

lemma upscale_image_interpolation:
  assumes "upscale_image x upscale min_size unit_resolution = Inr r"
  shows "r_interpolation r = (if 1 < upscale then INTER_LANCZOS4 else INTER_AREA)"
  using assms unfolding upscale_image_def Let_def
  by (auto dest!: bind_exn_Inr dest: cv2_resize_interpolation split: if_splits prod.splits)

lemma fix_resize_interpolation:
  assumes "fix_resize x sz unit_resolution = Inr r"
  shows "r_interpolation r =
     (if 1 < fl64 (sz / min (fl64 (of_nat (a_shape x ! 0))) (fl64 (of_nat (a_shape x ! 1))))
      then INTER_LANCZOS4 else INTER_AREA)"
proof -
  from assms obtain u where
    u: "py_truediv sz (min (fl64 (of_nat (a_shape x ! 0))) (fl64 (of_nat (a_shape x ! 1)))) = Inr u"
    and r: "r_interpolation r = (if 1 < u then INTER_LANCZOS4 else INTER_AREA)"
    unfolding fix_resize_def Let_def
    by (auto dest!: bind_exn_Inr dest: cv2_resize_interpolation split: if_splits)
  from py_truediv_Inr[OF u] r show ?thesis by simp
qed

text \<open>
  Claim C5, as amended. \<^verbatim>\<open>upscale_image\<close> passes Lanczos interpolation to OpenCV exactly
  when its argument \<open>upscale\<close> is greater than 1 and area interpolation otherwise, also
  for \<open>upscale = 1\<close>, whatever the minimum size and the rounding to the resolution unit do
  to the final size. \<^verbatim>\<open>fix_resize\<close> passes Lanczos exactly when the factor
  \<open>size / min(H, W)\<close> it computes is greater than 1, and area otherwise.
\<close>

theorem resize_interpolation_by_nominal_factor:
  "(upscale_image x upscale min_size unit_resolution = Inr r \<longrightarrow>
      r_interpolation r = (if 1 < upscale then INTER_LANCZOS4 else INTER_AREA)) \<and>
   (fix_resize y sz unit_resolution' = Inr r' \<longrightarrow>
      r_interpolation r' =
        (if 1 < fl64 (sz / min (fl64 (of_nat (a_shape y ! 0))) (fl64 (of_nat (a_shape y ! 1))))
         then INTER_LANCZOS4 else INTER_AREA))"
  using upscale_image_interpolation fix_resize_interpolation by blast

theorem resize_interpolation_by_nominal_factor_witness:
  "upscale_image \<lparr>a_dtype = uint8, a_shape = [4, 4, 3], a_data = replicate 48 0\<rparr> 2 (Some 64) 64
     = Inr \<lparr>r_shape = [64, 64, 3], r_interpolation = INTER_LANCZOS4\<rparr>
   \<and> fix_resize \<lparr>a_dtype = uint8, a_shape = [4, 4, 3], a_data = replicate 48 0\<rparr> 2 1
     = Inr \<lparr>r_shape = [2, 2, 3], r_interpolation = INTER_AREA\<rparr>
   \<and> r_interpolation \<lparr>r_shape = [64, 64, 3], r_interpolation = INTER_LANCZOS4\<rparr>
       = (if (1::rat) < 2 then INTER_LANCZOS4 else INTER_AREA)
   \<and> r_interpolation \<lparr>r_shape = [2, 2, 3], r_interpolation = INTER_AREA\<rparr>
       = (if 1 < fl64 (2 / min (fl64 (of_nat 4)) (fl64 (of_nat 4)))
          then INTER_LANCZOS4 else INTER_AREA)"
proof -
  have h1: "upscale_image \<lparr>a_dtype = uint8, a_shape = [4, 4, 3], a_data = replicate 48 0\<rparr>
              2 (Some 64) 64
            = Inr \<lparr>r_shape = [64, 64, 3], r_interpolation = INTER_LANCZOS4\<rparr>"
    by code_simp
  have h2: "fix_resize \<lparr>a_dtype = uint8, a_shape = [4, 4, 3], a_data = replicate 48 0\<rparr> 2 1
            = Inr \<lparr>r_shape = [2, 2, 3], r_interpolation = INTER_AREA\<rparr>"
    by code_simp
  show ?thesis
    using h1 h2
      resize_interpolation_by_nominal_factor[of
        "\<lparr>a_dtype = uint8, a_shape = [4, 4, 3], a_data = replicate 48 0\<rparr>" 2 "Some 64" 64
        "\<lparr>r_shape = [64, 64, 3], r_interpolation = INTER_LANCZOS4\<rparr>"
        "\<lparr>a_dtype = uint8, a_shape = [4, 4, 3], a_data = replicate 48 0\<rparr>" 2 1
        "\<lparr>r_shape = [2, 2, 3], r_interpolation = INTER_AREA\<rparr>"]
    by simp
qed

lemma eval_40: "fl64 40 = 40" "py_mul 40 1 = 40" "py_truediv 40 64 = Inr (5 / 8)"
  "round_half_even (5 / 8) = 1"
  by code_simp+

lemma upscale_image_40_by_1:
  assumes "a_shape x = [40, 40, 3]"
  shows "upscale_image x 1 None 64
           = Inr \<lparr>r_shape = [64, 64, 3], r_interpolation = INTER_AREA\<rparr>"
  by (simp add: upscale_image_def assms eval_40 bind_exn_def cv2_resize_def)

lemma eval_48: "fl64 48 = 48"
  "py_truediv 40 48 = Inr (7505999378950827 / 9007199254740992)"
  "py_mul 48 (7505999378950827 / 9007199254740992) = 40"
  by code_simp+

lemma fix_resize_48_to_40:
  assumes "a_shape x = [48, 48, 3]"
  shows "fix_resize x 40 64 = Inr \<lparr>r_shape = [64, 64, 3], r_interpolation = INTER_AREA\<rparr>"
  by (simp add: fix_resize_def assms eval_48 eval_40 bind_exn_def cv2_resize_def)

text \<open>
  The claim as stated fails. With \<open>upscale = 1/2\<close> and minimum size 64 a 4 by 4 image
  grows to 64 by 64; with \<open>upscale = 1\<close> a 40 by 40 image is rounded up to 64 by 64; and
  \<^verbatim>\<open>fix_resize\<close> to size 40 rounds a 48 by 48 image up to 64 by 64. All three enlarge the
  image with area interpolation.
\<close>

theorem resize_interpolation_counterexample:
  "upscale_image \<lparr>a_dtype = uint8, a_shape = [4, 4, 3], a_data = replicate 48 0\<rparr>
     (1 / 2) (Some 64) 64
     = Inr \<lparr>r_shape = [64, 64, 3], r_interpolation = INTER_AREA\<rparr>
   \<and> upscale_image \<lparr>a_dtype = uint8, a_shape = [40, 40, 3], a_data = replicate 4800 0\<rparr>
       1 None 64
     = Inr \<lparr>r_shape = [64, 64, 3], r_interpolation = INTER_AREA\<rparr>
   \<and> fix_resize \<lparr>a_dtype = uint8, a_shape = [48, 48, 3], a_data = replicate 6912 0\<rparr> 40 64
     = Inr \<lparr>r_shape = [64, 64, 3], r_interpolation = INTER_AREA\<rparr>"
proof (intro conjI)
  show "upscale_image \<lparr>a_dtype = uint8, a_shape = [4, 4, 3], a_data = replicate 48 0\<rparr>
     (1 / 2) (Some 64) 64
     = Inr \<lparr>r_shape = [64, 64, 3], r_interpolation = INTER_AREA\<rparr>"
    by code_simp
  show "upscale_image \<lparr>a_dtype = uint8, a_shape = [40, 40, 3], a_data = replicate 4800 0\<rparr>
       1 None 64
     = Inr \<lparr>r_shape = [64, 64, 3], r_interpolation = INTER_AREA\<rparr>"
    by (rule upscale_image_40_by_1) simp
  show "fix_resize \<lparr>a_dtype = uint8, a_shape = [48, 48, 3], a_data = replicate 6912 0\<rparr> 40 64
     = Inr \<lparr>r_shape = [64, 64, 3], r_interpolation = INTER_AREA\<rparr>"
    by (rule fix_resize_48_to_40) simp
qed

lemma eval_100: "fl64 100 = 100" "py_mul 100 2 = 200" "py_truediv 200 64 = Inr (25 / 8)"
  "round_half_even (25 / 8) = 3"
  by code_simp+

text \<open>
  Claim C6. For every input array of shape 100 by 100 (by \<open>c\<close> channels),
  \<^verbatim>\<open>upscale_image\<close> with \<open>upscale = 2\<close>, no minimum size and resolution unit 64 returns an
  image of exactly 192 by 192 pixels: \<open>200 / 64 = 3.125\<close> rounds to 3.
\<close>

theorem upscale_image_100_by_2:
  assumes "a_shape x = [100, 100, c]" and "c \<noteq> 0"
  shows "upscale_image x 2 None 64
           = Inr \<lparr>r_shape = (if c = 1 then [192, 192] else [192, 192, c]),
                  r_interpolation = INTER_LANCZOS4\<rparr>"
  using assms(2)
  by (simp add: upscale_image_def assms(1) eval_100 bind_exn_def cv2_resize_def)

theorem upscale_image_100_by_2_witness:
  "a_shape \<lparr>a_dtype = uint8, a_shape = [100, 100, 3], a_data = replicate 30000 0\<rparr>
     = [100, 100, 3]
   \<and> (3::nat) \<noteq> 0
   \<and> upscale_image \<lparr>a_dtype = uint8, a_shape = [100, 100, 3], a_data = replicate 30000 0\<rparr>
         2 None 64
       = Inr \<lparr>r_shape = [192, 192, 3], r_interpolation = INTER_LANCZOS4\<rparr>"
  using upscale_image_100_by_2[of
      "\<lparr>a_dtype = uint8, a_shape = [100, 100, 3], a_data = replicate 30000 0\<rparr>" 3]
  by simp

subsection \<open>Channel normalisation\<close>

lemma rat_of_uint8: "(of_int (uint (v :: 8 word)) :: rat) = of_nat (unat v)"
  by (subst uint_nat) (rule of_int_of_nat_eq)

lemma fl32_uint8: "fl32 (of_nat (unat (v :: 8 word))) = of_nat (unat v)"
proof -
  have "uint v < 2 ^ 8" using uint_bounded[of v] by simp
  moreover have "0 \<le> uint v" by simp
  ultimately have "\<bar>uint v\<bar> < 2 ^ 24" by simp
  from float_round_int[OF this] show ?thesis
    unfolding fl32_def rat_of_uint8 .
qed

lemma fl32_small: "fl32 0 = 0" "fl32 1 = 1" "fl32 255 = 255"
  using float_round_int[of 0 24] float_round_int[of 1 24] float_round_int[of 255 24]
  by (simp_all add: fl32_def)

lemma uint8_le_255: "(of_nat (unat (v :: 8 word)) :: rat) \<le> 255"
proof -
  have "unat v < 2 ^ 8" using unsigned_less[of v] by simp
  then have "unat v \<le> 255" by simp
  then have "(of_nat (unat v) :: rat) \<le> of_nat 255" by (rule of_nat_mono)
  then show ?thesis by simp
qed

lemma unsigned_rat: "(unsigned (v :: 8 word) :: rat) = of_nat (unat v)"
  by simp

lemma composite_sample_opaque: "composite_sample v 255 = v"
proof -
  have f: "fl32 (unsigned v) = unsigned v"
    using fl32_uint8[of v] by simp
  have nn: "(0::rat) \<le> unsigned v"
    by (subst unsigned_rat) (rule of_nat_0_le_iff)
  have "composite_sample v 255 = astype_uint8 (clip 0 255 (unsigned v))"
    by (simp add: composite_sample_def f fl32_small)
  also have "\<dots> = astype_uint8 (of_nat (unat v))"
    using uint8_le_255[of v] nn by (simp add: clip_def max_def)
  also have "\<dots> = word_of_int (int (unat v))"
    unfolding astype_uint8_def by (simp only: of_nat_0_le_iff if_True floor_of_nat)
  also have "\<dots> = v"
    by simp
  finally show ?thesis .
qed


lemma index_lt: "i < H \<Longrightarrow> j < W \<Longrightarrow> i * W + j < H * (W::nat)"
proof -
  assume a: "i < H" "j < W"
  then have "i * W + j < i * W + W" by simp
  also have "\<dots> = Suc i * W" by simp
  also have "\<dots> \<le> H * W" using a(1) by (intro mult_le_mono1) simp
  finally show ?thesis .
qed

lemma four_split:
  assumes "length xs = Suc n * 4"
  obtains r g b a rest where "xs = r # g # b # a # rest" "length rest = n * 4"
proof -
  from assms have "length xs = Suc (Suc (Suc (Suc (n * 4))))" by simp
  then show ?thesis using that by (auto simp: length_Suc_conv)
qed

lemma length_composite: "length xs = n * 4 \<Longrightarrow> length (composite xs) = n * 3"
proof (induction n arbitrary: xs)
  case 0
  then show ?case by simp
next
  case (Suc n)
  from Suc.prems obtain r g b a rest where xs: "xs = r # g # b # a # rest"
    and "length rest = n * 4" by (rule four_split)
  with Suc.IH show ?case by simp
qed

lemma composite_nth:
  "length xs = n * 4 \<Longrightarrow> k < n \<Longrightarrow> c < 3 \<Longrightarrow>
     composite xs ! (k * 3 + c) = composite_sample (xs ! (k * 4 + c)) (xs ! (k * 4 + 3))"
proof (induction n arbitrary: xs k)
  case 0
  then show ?case by simp
next
  case (Suc n)
  from Suc.prems(1) obtain r g b a rest where xs: "xs = r # g # b # a # rest"
    and len: "length rest = n * 4" by (rule four_split)
  show ?case
  proof (cases k)
    case 0
    from Suc.prems(3) have "c = 0 \<or> c = 1 \<or> c = 2" by auto
    with 0 xs show ?thesis by auto
  next
    case (Suc k')
    with Suc.prems have "k' < n" by simp
    from Suc.IH[OF len this Suc.prems(3)]
    have IH: "composite rest ! (k' * 3 + c)
                = composite_sample (rest ! (k' * 4 + c)) (rest ! (k' * 4 + 3))" .
    have e: "k * 3 + c = Suc (Suc (Suc (k' * 3 + c)))"
      "k * 4 + c = Suc (Suc (Suc (Suc (k' * 4 + c))))"
      "k * 4 + 3 = Suc (Suc (Suc (Suc (k' * 4 + 3))))"
      using Suc by simp_all
    show ?thesis unfolding e xs using IH by (simp add: ac_simps)
  qed
qed

lemma nth_triples:
  "k < length xs \<Longrightarrow> c < 3 \<Longrightarrow> concat (map (\<lambda>v. [v, v, v]) xs) ! (k * 3 + c) = xs ! k"
proof (induction xs arbitrary: k)
  case Nil
  then show ?case by simp
next
  case (Cons x xs)
  show ?case
  proof (cases k)
    case 0
    with Cons.prems(2) have "c = 0 \<or> c = 1 \<or> c = 2" by auto
    with 0 show ?thesis by auto
  next
    case (Suc k')
    with Cons.prems have "concat (map (\<lambda>v. [v, v, v]) xs) ! (k' * 3 + c) = xs ! k'"
      by (intro Cons.IH) simp_all
    moreover have "k * 3 + c = Suc (Suc (Suc (k' * 3 + c)))" using Suc by simp
    ultimately show ?thesis using Suc by simp
  qed
qed

lemma concatenate_axis2_same:
  "concatenate_axis2 xs xs xs = concat (map (\<lambda>v. [v, v, v]) xs)"
  by (induction xs) (simp_all add: concatenate_axis2_def)

lemma length_triples: "length (concat (map (\<lambda>v. [v, v, v]) xs)) = length xs * 3"
  by (induction xs) simp_all

text \<open>
  Claim C8. For every \<^verbatim>\<open>uint8\<close> array of shape \<open>(H, W)\<close>, \<^verbatim>\<open>HWC3\<close> returns an array of
  shape \<open>(H, W, 3)\<close> whose three channels all equal the input: the sample at
  \<open>(i, j, c)\<close> is the input sample at \<open>(i, j)\<close>.
\<close>

theorem HWC3_gray:
  assumes "a_dtype x = uint8" and "a_shape x = [H, W]" and "length (a_data x) = H * W"
  shows "\<exists>y. HWC3 x = Inr y \<and> a_dtype y = uint8 \<and> a_shape y = [H, W, 3] \<and>
           length (a_data y) = H * W * 3 \<and>
           (\<forall>i<H. \<forall>j<W. \<forall>c<3. at3 y i j c = at2 x i j)"
proof -
  let ?y = "x\<lparr>a_shape := [H, W, 3], a_data := concat (map (\<lambda>v. [v, v, v]) (a_data x))\<rparr>"
  have y: "HWC3 x = Inr ?y"
    by (simp add: HWC3_def assms(1,2) concatenate_axis2_same)
  have "at3 ?y i j c = at2 x i j" if "i < H" "j < W" "c < 3" for i j c
    using nth_triples[of "i * W + j" "a_data x" c] index_lt[OF that(1,2)] that(3)
    by (simp add: at3_def at2_def assms(2,3))
  with y show ?thesis by (simp add: assms(1,3) length_triples)
qed

theorem HWC3_gray_witness:
  "a_dtype \<lparr>a_dtype = uint8, a_shape = [2, 2], a_data = [1, 2, 3, 4]\<rparr> = uint8
   \<and> (\<exists>y. HWC3 \<lparr>a_dtype = uint8, a_shape = [2, 2], a_data = [1, 2, 3, 4]\<rparr> = Inr y \<and>
           a_dtype y = uint8 \<and> a_shape y = [2, 2, 3] \<and> length (a_data y) = 12 \<and>
           at3 y 0 0 0 = 1 \<and> at3 y 0 1 1 = 2 \<and> at3 y 1 0 2 = 3 \<and> at3 y 1 1 0 = 4)"
proof -
  let ?x = "\<lparr>a_dtype = uint8, a_shape = [2, 2], a_data = [1, 2, 3, 4 :: 8 word]\<rparr>"
  have h1: "a_dtype ?x = uint8" by simp
  have h2: "a_shape ?x = [2, 2]" by simp
  have h3: "length (a_data ?x) = 2 * 2" by simp
  from HWC3_gray[OF h1 h2 h3] obtain y where
    y: "HWC3 ?x = Inr y" "a_dtype y = uint8" "a_shape y = [2, 2, 3]"
    and len: "length (a_data y) = 2 * 2 * 3"
    and e: "\<forall>i<2. \<forall>j<2. \<forall>c<3. at3 y i j c = at2 ?x i j"
    by blast
  have v: "at2 ?x 0 0 = 1" "at2 ?x 0 1 = 2" "at2 ?x 1 0 = 3" "at2 ?x 1 1 = 4"
    by (simp_all add: at2_def)
  have "at3 y 0 0 0 = at2 ?x 0 0" using e by simp
  moreover have "at3 y 0 1 1 = at2 ?x 0 1" using e by simp
  moreover have "at3 y 1 0 2 = at2 ?x 1 0" using e by simp
  moreover have "at3 y 1 1 0 = at2 ?x 1 1" using e by simp
  ultimately have w: "at3 y 0 0 0 = 1" "at3 y 0 1 1 = 2" "at3 y 1 0 2 = 3" "at3 y 1 1 0 = 4"
    unfolding v by blast+
  have l: "length (a_data y) = 12" using len by simp
  have "\<exists>y. HWC3 ?x = Inr y \<and>
           a_dtype y = uint8 \<and> a_shape y = [2, 2, 3] \<and> length (a_data y) = 12 \<and>
           at3 y 0 0 0 = 1 \<and> at3 y 0 1 1 = 2 \<and> at3 y 1 0 2 = 3 \<and> at3 y 1 1 0 = 4"
    using y l w by (intro exI[of _ y] conjI)
  with h1 show ?thesis by (rule conjI)
qed

lemma HWC3_gray_example:
  "HWC3 \<lparr>a_dtype = uint8, a_shape = [2, 2], a_data = [1, 2, 3, 4]\<rparr>
     = Inr \<lparr>a_dtype = uint8, a_shape = [2, 2, 3],
            a_data = [1, 1, 1, 2, 2, 2, 3, 3, 3, 4, 4, 4]\<rparr>"
  by code_simp

text \<open>
  Claim C7. For every 4-channel \<^verbatim>\<open>uint8\<close> array whose alpha channel is 255 everywhere,
  \<^verbatim>\<open>HWC3\<close> returns a 3-channel array whose samples equal the first three channels of
  the input: in \<^verbatim>\<open>float32\<close>, \<open>alpha\<close> is exactly 1, so the compositing, the clipping
  and the cast back leave every colour sample unchanged.
\<close>

theorem HWC3_opaque_alpha:
  assumes "a_dtype x = uint8" and "a_shape x = [H, W, 4]" and "length (a_data x) = H * W * 4"
    and "\<forall>i<H. \<forall>j<W. at3 x i j 3 = 255"
  shows "\<exists>y. HWC3 x = Inr y \<and> a_dtype y = uint8 \<and> a_shape y = [H, W, 3] \<and>
           length (a_data y) = H * W * 3 \<and>
           (\<forall>i<H. \<forall>j<W. \<forall>c<3. at3 y i j c = at3 x i j c)"
proof -
  let ?y = "x\<lparr>a_shape := [H, W, 3], a_data := composite (a_data x)\<rparr>"
  have y: "HWC3 x = Inr ?y"
    by (simp add: HWC3_def assms(1,2))
  have "at3 ?y i j c = at3 x i j c" if "i < H" "j < W" "c < 3" for i j c
  proof -
    have k: "i * W + j < H * W" using that(1,2) by (rule index_lt)
    have "composite (a_data x) ! ((i * W + j) * 3 + c)
            = composite_sample (a_data x ! ((i * W + j) * 4 + c)) (a_data x ! ((i * W + j) * 4 + 3))"
      using assms(3) k that(3) by (rule composite_nth)
    moreover have "a_data x ! ((i * W + j) * 4 + 3) = 255"
      using assms(4) that(1,2) by (simp add: at3_def assms(2))
    ultimately show ?thesis
      by (simp add: at3_def assms(2) composite_sample_opaque)
  qed
  with y show ?thesis
    by (simp add: assms(1,3) length_composite)
qed


theorem HWC3_opaque_alpha_witness:
  "a_dtype \<lparr>a_dtype = uint8, a_shape = [1, 2, 4],
            a_data = [10, 20, 30, 255, 40, 50, 60, 255]\<rparr> = uint8
   \<and> at3 \<lparr>a_dtype = uint8, a_shape = [1, 2, 4],
            a_data = [10, 20, 30, 255, 40, 50, 60, 255]\<rparr> 0 0 3 = 255
   \<and> at3 \<lparr>a_dtype = uint8, a_shape = [1, 2, 4],
            a_data = [10, 20, 30, 255, 40, 50, 60, 255]\<rparr> 0 1 3 = 255
   \<and> (\<exists>y. HWC3 \<lparr>a_dtype = uint8, a_shape = [1, 2, 4],
                  a_data = [10, 20, 30, 255, 40, 50, 60, 255]\<rparr> = Inr y \<and>
           a_dtype y = uint8 \<and> a_shape y = [1, 2, 3] \<and> length (a_data y) = 6 \<and>
           at3 y 0 0 0 = 10 \<and> at3 y 0 0 1 = 20 \<and> at3 y 0 0 2 = 30 \<and>
           at3 y 0 1 0 = 40 \<and> at3 y 0 1 1 = 50 \<and> at3 y 0 1 2 = 60)"
proof -
  let ?x = "\<lparr>a_dtype = uint8, a_shape = [1, 2, 4],
             a_data = [10, 20, 30, 255, 40, 50, 60, 255 :: 8 word]\<rparr>"
  have h1: "a_dtype ?x = uint8" by simp
  have h2: "a_shape ?x = [1, 2, 4]" by simp
  have h3: "length (a_data ?x) = 1 * 2 * 4" by simp
  have a: "at3 ?x 0 0 3 = 255" "at3 ?x 0 1 3 = 255"
    by (simp_all add: at3_def)
  have h4: "\<forall>i<1. \<forall>j<2. at3 ?x i j 3 = 255"
    using a by (simp add: numeral_2_eq_2 All_less_Suc)
  from HWC3_opaque_alpha[OF h1 h2 h3 h4] obtain y where
    y: "HWC3 ?x = Inr y" "a_dtype y = uint8" "a_shape y = [1, 2, 3]"
    and len: "length (a_data y) = 1 * 2 * 3"
    and e: "\<forall>i<1. \<forall>j<2. \<forall>c<3. at3 y i j c = at3 ?x i j c"
    by blast
  have v: "at3 ?x 0 0 0 = 10" "at3 ?x 0 0 1 = 20" "at3 ?x 0 0 2 = 30"
    "at3 ?x 0 1 0 = 40" "at3 ?x 0 1 1 = 50" "at3 ?x 0 1 2 = 60"
    by (simp_all add: at3_def)
  have "at3 y 0 0 0 = at3 ?x 0 0 0" using e by simp
  moreover have "at3 y 0 0 1 = at3 ?x 0 0 1" using e by simp
  moreover have "at3 y 0 0 2 = at3 ?x 0 0 2" using e by simp
  moreover have "at3 y 0 1 0 = at3 ?x 0 1 0" using e by simp
  moreover have "at3 y 0 1 1 = at3 ?x 0 1 1" using e by simp
  moreover have "at3 y 0 1 2 = at3 ?x 0 1 2" using e by simp
  ultimately have w: "at3 y 0 0 0 = 10" "at3 y 0 0 1 = 20" "at3 y 0 0 2 = 30"
    "at3 y 0 1 0 = 40" "at3 y 0 1 1 = 50" "at3 y 0 1 2 = 60"
    unfolding v by blast+
  have l: "length (a_data y) = 6" using len by simp
  have "\<exists>y. HWC3 ?x = Inr y \<and>
           a_dtype y = uint8 \<and> a_shape y = [1, 2, 3] \<and> length (a_data y) = 6 \<and>
           at3 y 0 0 0 = 10 \<and> at3 y 0 0 1 = 20 \<and> at3 y 0 0 2 = 30 \<and>
           at3 y 0 1 0 = 40 \<and> at3 y 0 1 1 = 50 \<and> at3 y 0 1 2 = 60"
    using y l w by (intro exI[of _ y] conjI)
  with h1 a show ?thesis by (intro conjI)
qed


lemma HWC3_opaque_alpha_example:
  "HWC3 \<lparr>a_dtype = uint8, a_shape = [1, 2, 4],
         a_data = [10, 20, 30, 255, 40, 50, 60, 255]\<rparr>
     = Inr \<lparr>a_dtype = uint8, a_shape = [1, 2, 3], a_data = [10, 20, 30, 40, 50, 60]\<rparr>"
  by code_simp

subsection \<open>Precision names\<close>

text \<open>
  Claim C9. \<^verbatim>\<open>convert_dtype\<close> maps \<^verbatim>\<open>fp32\<close>, \<^verbatim>\<open>fp16\<close> and \<^verbatim>\<open>bf16\<close> to three pairwise
  distinct precision identifiers and raises \<^verbatim>\<open>NotImplementedError\<close> on every other string.
\<close>

theorem convert_dtype_cases:
  "convert_dtype ''fp32'' = Inr torch_float32 \<and>
   convert_dtype ''fp16'' = Inr torch_float16 \<and>
   convert_dtype ''bf16'' = Inr torch_bfloat16 \<and>
   convert_dtype ''fp32'' \<noteq> convert_dtype ''fp16'' \<and>
   convert_dtype ''fp32'' \<noteq> convert_dtype ''bf16'' \<and>
   convert_dtype ''fp16'' \<noteq> convert_dtype ''bf16'' \<and>
   (s \<noteq> ''fp32'' \<and> s \<noteq> ''fp16'' \<and> s \<noteq> ''bf16'' \<longrightarrow>
      convert_dtype s = Inl NotImplementedError)"
  by (simp add: convert_dtype_def)

theorem convert_dtype_cases_witness:
  "''int8'' \<noteq> ''fp32'' \<and> ''int8'' \<noteq> ''fp16'' \<and> ''int8'' \<noteq> ''bf16'' \<and>
   convert_dtype ''int8'' = Inl NotImplementedError"
  using convert_dtype_cases[of "''int8''"] by simp

subsection \<open>Checkpoint loading\<close>

lemma map_of_weights:
  "map_of (map (\<lambda>(k, w). (k, Weights w)) kvs) k = map_option Weights (map_of kvs k)"
  by (induction kvs) auto

text \<open>
  Claim C10. On the path that is not safetensors, \<^verbatim>\<open>load_state_dict\<close> applies
  \<^verbatim>\<open>get_state_dict\<close> twice to the deserialised object, so a mapping nested two levels
  under \<^verbatim>\<open>state_dict\<close> keys yields the innermost object. On the safetensors path it
  applies \<^verbatim>\<open>get_state_dict\<close> once to the flat mapping, so a flat mapping with a key
  \<^verbatim>\<open>state_dict\<close> yields the entry under that key and not the mapping.
\<close>

theorem load_state_dict_unwraps:
  "(lower (snd (splitext p)) \<noteq> ''.safetensors'' \<and> map_of (files env) p = Some (Pickle d) \<longrightarrow>
      fst (load_state_dict env p loc) = bind_exn (get_state_dict d) get_state_dict \<and>
      (\<forall>kvs1 kvs2 inner.
          d = Dict kvs1 \<and> map_of kvs1 ''state_dict'' = Some (Dict kvs2) \<and>
          map_of kvs2 ''state_dict'' = Some inner \<longrightarrow>
          fst (load_state_dict env p loc) = Inr inner)) \<and>
   (lower (snd (splitext q)) = ''.safetensors'' \<and> map_of (files env) q = Some (Safetensors kvs) \<longrightarrow>
      fst (load_state_dict env q loc)
        = get_state_dict (Dict (map (\<lambda>(k, w). (k, Weights w)) kvs)) \<and>
      (\<forall>w. map_of kvs ''state_dict'' = Some w \<longrightarrow>
          fst (load_state_dict env q loc) = Inr (Weights w)))"
proof (intro conjI impI)
  assume a: "lower (snd (splitext p)) \<noteq> ''.safetensors'' \<and> map_of (files env) p = Some (Pickle d)"
  show 1: "fst (load_state_dict env p loc) = bind_exn (get_state_dict d) get_state_dict"
    using a
    by (cases "get_state_dict d"; cases "get_state_dict (projr (get_state_dict d))")
      (simp_all add: load_state_dict_def torch_load_def bind_io_def bind_exn_def print_def)
  show "\<forall>kvs1 kvs2 inner.
          d = Dict kvs1 \<and> map_of kvs1 ''state_dict'' = Some (Dict kvs2) \<and>
          map_of kvs2 ''state_dict'' = Some inner \<longrightarrow>
          fst (load_state_dict env p loc) = Inr inner"
    unfolding 1 by (simp add: get_state_dict_def bind_exn_def)
next
  assume a: "lower (snd (splitext q)) = ''.safetensors'' \<and> map_of (files env) q = Some (Safetensors kvs)"
  show 2: "fst (load_state_dict env q loc)
        = get_state_dict (Dict (map (\<lambda>(k, w). (k, Weights w)) kvs))"
    using a
    by (cases "get_state_dict (Dict (map (\<lambda>(k, w). (k, Weights w)) kvs))")
      (simp_all add: load_state_dict_def safetensors_load_file_def bind_io_def print_def)
  show "\<forall>w. map_of kvs ''state_dict'' = Some w \<longrightarrow>
          fst (load_state_dict env q loc) = Inr (Weights w)"
    unfolding 2 by (simp add: get_state_dict_def map_of_weights)
qed


theorem load_state_dict_unwraps_witness:
  "fst (load_state_dict E0 ''sdxl.ckpt'' ''cpu'') = Inr (Dict [(''w'', Weights 1)]) \<and>
   fst (load_state_dict E0 ''b.safetensors'' ''cpu'') = Inr (Weights 7)"
proof -
  have p: "lower (snd (splitext ''sdxl.ckpt'')) \<noteq> ''.safetensors'' \<and>
           map_of (files E0) ''sdxl.ckpt''
             = Some (Pickle (Dict [(''state_dict'',
                  Dict [(''state_dict'', Dict [(''w'', Weights 1)])])]))"
    by code_simp
  have q: "lower (snd (splitext ''b.safetensors'')) = ''.safetensors'' \<and>
           map_of (files E0) ''b.safetensors'' = Some (Safetensors [(''state_dict'', 7), (''w'', 8)])"
    by code_simp
  show ?thesis
    using p q
      load_state_dict_unwraps[of "''sdxl.ckpt''" E0
        "Dict [(''state_dict'', Dict [(''state_dict'', Dict [(''w'', Weights 1)])])]" "''cpu''"
        "''b.safetensors''" "[(''state_dict'', 7), (''w'', 8)]"]
    by (simp add: get_state_dict_def bind_exn_def)
qed

text \<open>
  Claim C3. For every checkpoint path that is not on disk, the load step
  \<^verbatim>\<open>load_to_device\<close>, which serves the primary and the tag-selected checkpoint alike,
  raises nothing, returns the model unchanged, reads no file, and logs the line
  \<^verbatim>\<open>No checkpoint found at [...]\<close>.
\<close>

theorem load_to_device_missing:
  assumes "map_of (files env) p = None"
  shows "load_to_device env m (Some p) =
           (Inr m,
            if p = []
            then [Printt (''Loading state_dict from ['' @ p @ '']''),
                  Printt (''No checkpoint found at ['' @ p @ '']'')]
            else [Printt (''Loading state_dict from ['' @ p @ '']''),
                  Path_exists p,
                  Printt (''No checkpoint found at ['' @ p @ '']'')])"
  using assms
  by (simp add: load_to_device_def Let_def bind_io_def printt_def os_path_exists_def)

theorem load_to_device_missing_witness:
  "map_of (files E0) ''missing.ckpt'' = None \<and>
   load_to_device E0 \<lparr>m_params = [(''w'', 0)], m_sampler = ''EDM''\<rparr> (Some ''missing.ckpt'') =
     (Inr \<lparr>m_params = [(''w'', 0)], m_sampler = ''EDM''\<rparr>,
      [Printt ''Loading state_dict from [missing.ckpt]'',
       Path_exists ''missing.ckpt'',
       Printt ''No checkpoint found at [missing.ckpt]''])"
proof -
  have h: "map_of (files E0) ''missing.ckpt'' = None" by code_simp
  show ?thesis
    using h load_to_device_missing[OF h, of "\<lparr>m_params = [(''w'', 0)], m_sampler = ''EDM''\<rparr>"]
    by simp
qed

subsection \<open>Model builder\<close>

text \<open>
  Claim C2, as amended. A call of \<^verbatim>\<open>create_SUPIR_model\<close> with a non-empty tag other than
  \<^verbatim>\<open>F\<close> and \<^verbatim>\<open>Q\<close> never returns a model. It first does what a call without a tag
  does: it reads the configuration file, instantiates the model and runs the primary
  checkpoint load step. If one of these steps raises, the call raises the same way;
  otherwise it raises \<^verbatim>\<open>AssertionError\<close>, after all events of the call without a tag
  except its final log line. An empty tag is treated like no tag.
\<close>

theorem invalid_sign_fails_after_primary_load:
  assumes "sign \<noteq> []" and "sign \<noteq> ''F''" and "sign \<noteq> ''Q''"
  shows "create_SUPIR_model env config_path (Some sign) device ckpt sampler =
           (case create_SUPIR_model env config_path None device ckpt sampler of
              (Inl e, t) \<Rightarrow> (Inl e, t)
            | (Inr m, t) \<Rightarrow> (Inl AssertionError, butlast t))
         \<and> create_SUPIR_model env config_path (Some []) device ckpt sampler =
             create_SUPIR_model env config_path None device ckpt sampler"
proof
  show "create_SUPIR_model env config_path (Some []) device ckpt sampler =
          create_SUPIR_model env config_path None device ckpt sampler"
    by (simp add: create_SUPIR_model_def)
next
  obtain r0 t0 where Pair: "OmegaConf_load env config_path = (r0, t0)"
    by (cases "OmegaConf_load env config_path")
  let ?thesis = "create_SUPIR_model env config_path (Some sign) device ckpt sampler =
           (case create_SUPIR_model env config_path None device ckpt sampler of
              (Inl e, t) \<Rightarrow> (Inl e, t)
            | (Inr m, t) \<Rightarrow> (Inl AssertionError, butlast t))"
  show ?thesis
  proof (cases r0)
    case (Inl e)
    with Pair show ?thesis by (simp add: create_SUPIR_model_def bind_io_def)
  next
    case (Inr config0)
    define config where "config =
      (if truthy ckpt
       then config0\<lparr>cfg_model := (cfg_model config0)\<lparr>sampler_config_target := sampler\<rparr>,
                     SDXL_CKPT := ckpt\<rparr>
       else config0\<lparr>cfg_model := (cfg_model config0)\<lparr>sampler_config_target := sampler\<rparr>\<rparr>)"
    show ?thesis
    proof (cases "instantiate_from_config env (cfg_model config)")
      case (Inl e)
      with Pair \<open>r0 = Inr config0\<close> show ?thesis
        by (simp add: create_SUPIR_model_def bind_io_def printt_def Let_def config_def)
    next
      case mi: (Inr model0)
      obtain r1 t1 where l: "load_to_device env model0 (SDXL_CKPT config) = (r1, t1)"
        by (cases "load_to_device env model0 (SDXL_CKPT config)")
      show ?thesis
        using Pair \<open>r0 = Inr config0\<close> mi l assms
        by (cases r1)
          (simp_all add: create_SUPIR_model_def bind_io_def printt_def Let_def config_def
            butlast_append)
    qed
  qed
qed

theorem invalid_sign_fails_after_primary_load_witness:
  "''X'' \<noteq> [] \<and> ''X'' \<noteq> ''F'' \<and> ''X'' \<noteq> ''Q'' \<and>
   create_SUPIR_model E0 ''cfg.yaml'' (Some ''X'') ''cpu'' None ''DPMPP2M'' =
     (Inl AssertionError,
      [Read_config ''cfg.yaml'', Printt ''Loading model from [cfg.yaml]'',
       Instantiate, Printt ''Loaded model from [cfg.yaml]'',
       Printt ''Loading state_dict from [sdxl.ckpt]'',
       Path_exists ''sdxl.ckpt'', Cuda_is_available,
       Read_file ''sdxl.ckpt'' ''cpu'',
       Print ''Loaded state_dict from [sdxl.ckpt]'', Module_load,
       Printt ''Loaded state_dict from [sdxl.ckpt]''])"
proof -
  have n: "create_SUPIR_model E0 ''cfg.yaml'' None ''cpu'' None ''DPMPP2M'' =
     (Inr \<lparr>m_params = [(''w'', 1)], m_sampler = ''DPMPP2M''\<rparr>,
      [Read_config ''cfg.yaml'', Printt ''Loading model from [cfg.yaml]'',
       Instantiate, Printt ''Loaded model from [cfg.yaml]'',
       Printt ''Loading state_dict from [sdxl.ckpt]'',
       Path_exists ''sdxl.ckpt'', Cuda_is_available,
       Read_file ''sdxl.ckpt'' ''cpu'',
       Print ''Loaded state_dict from [sdxl.ckpt]'', Module_load,
       Printt ''Loaded state_dict from [sdxl.ckpt]'',
       Printt ''Loaded model config from [cfg.yaml] and moved to cpu''])"
    by code_simp
  have h: "''X'' \<noteq> []" "''X'' \<noteq> ''F''" "''X'' \<noteq> ''Q''" by simp_all
  show ?thesis
    using invalid_sign_fails_after_primary_load[OF h, of E0 "''cfg.yaml''" "''cpu''" None "''DPMPP2M''"]
    by (simp add: n)
qed

text \<open>
  The claim as stated fails: with the tag \<^verbatim>\<open>X\<close> the assertion fails only after the
  configuration file was read and the primary checkpoint was probed and read, and with
  the empty tag no error is raised at all.
\<close>

theorem invalid_sign_counterexample:
  "fst (create_SUPIR_model E0 ''cfg.yaml'' (Some ''X'') ''cpu'' None ''DPMPP2M'')
     = Inl AssertionError
   \<and> filter is_io (snd (create_SUPIR_model E0 ''cfg.yaml'' (Some ''X'') ''cpu'' None ''DPMPP2M''))
     = [Read_config ''cfg.yaml'', Path_exists ''sdxl.ckpt'', Read_file ''sdxl.ckpt'' ''cpu'']
   \<and> fst (create_SUPIR_model E0 ''cfg.yaml'' (Some []) ''cpu'' None ''DPMPP2M'')
     = Inr \<lparr>m_params = [(''w'', 1)], m_sampler = ''DPMPP2M''\<rparr>"
  by code_simp

end
